theory Spec2Isabelle
  imports Complex_Main
begin

section \<open>The connector of the YooKassa SDK: request pipeline with retry and idempotency\<close>

text \<open>
  The development embeds \<^verbatim>\<open>isRetryableError\<close> and \<^verbatim>\<open>Connector.request\<close> of the
  connector module. The HTTP client (axios behind the rate limiter) and
  \<^verbatim>\<open>randomUUID\<close> are the environment: the client is a deterministic state machine that
  answers each request configuration with a resolved response or a rejected
  \<^verbatim>\<open>AxiosError\<close>, and the UUID is a string handed to the call. What the pipeline does to
  the outside world (requests sent, debug log lines, waits) is recorded as a list of events.

  Three readings of the source are fixed here. A rejection of the client is an
  \<^verbatim>\<open>AxiosError\<close> object, as the cast in the \<^verbatim>\<open>catch\<close> block takes it to be. Status
  codes, attempt counters and milliseconds are unbounded integers:
  \<^verbatim>\<open>RETRY_DELAY * Math.pow(2, attempt)\<close> is computed exactly, as the double arithmetic
  does for every attempt below index 1014. The \<^verbatim>\<open>retries\<close> of the connector is an
  unvalidated \<^verbatim>\<open>number\<close>: it is any rational here, negative and fractional values
  included. \<^verbatim>\<open>NaN\<close> and \<^verbatim>\<open>-Infinity\<close> make both comparisons of the loop false, as
  every negative value does, and stand with those; \<^verbatim>\<open>Infinity\<close>, under which the loop has
  no bound, is the one value left out.
\<close>

subsection \<open>JavaScript values\<close>

text \<open>
  Response bodies are arbitrary JavaScript values. Numbers that occur here (HTTP status
  codes, attempt counters, milliseconds) are integers, so \<^typ>\<open>int\<close> stands for them.
  An object is the list of its own properties.
\<close>

datatype jsval =
    JUndefined
  | JNull
  | JBool bool
  | JNum int
  | JStr string
  | JArr "jsval list"
  | JObj "(string \<times> jsval) list"

datatype js_error = TypeError

text \<open>Truthiness of a value, as \<^verbatim>\<open>&&\<close>, \<^verbatim>\<open>||\<close>, \<^verbatim>\<open>?:\<close> and \<^verbatim>\<open>if\<close> test it.\<close>

fun truthy :: "jsval \<Rightarrow> bool" where
  "truthy JUndefined = False"
| "truthy JNull = False"
| "truthy (JBool b) = b"
| "truthy (JNum n) = (n \<noteq> 0)"
| "truthy (JStr s) = (s \<noteq> [])"
| "truthy (JArr xs) = True"
| "truthy (JObj kvs) = True"

fun typeof :: "jsval \<Rightarrow> string" where
  "typeof JUndefined = ''undefined''"
| "typeof JNull = ''object''"
| "typeof (JBool b) = ''boolean''"
| "typeof (JNum n) = ''number''"
| "typeof (JStr s) = ''string''"
| "typeof (JArr xs) = ''object''"
| "typeof (JObj kvs) = ''object''"

text \<open>
  \<^verbatim>\<open>'type' in v\<close>: a \<^verbatim>\<open>TypeError\<close> when \<^verbatim>\<open>v\<close> is not an object. Neither
  \<^verbatim>\<open>Object.prototype\<close> nor \<^verbatim>\<open>Array.prototype\<close> has a property \<^verbatim>\<open>type\<close>, so only own
  properties count, and an array has none of that name.
\<close>

fun type_in :: "jsval \<Rightarrow> js_error + bool" where
  "type_in (JObj kvs) = Inr (map_of kvs ''type'' \<noteq> None)"
| "type_in (JArr xs) = Inr False"
| "type_in v = Inl TypeError"

text \<open>\<^verbatim>\<open>v.type\<close>: a \<^verbatim>\<open>TypeError\<close> on \<^verbatim>\<open>undefined\<close> and \<^verbatim>\<open>null\<close>.\<close>

fun get_type :: "jsval \<Rightarrow> js_error + jsval" where
  "get_type (JObj kvs) = Inr (case map_of kvs ''type'' of None \<Rightarrow> JUndefined | Some v \<Rightarrow> v)"
| "get_type JUndefined = Inl TypeError"
| "get_type JNull = Inl TypeError"
| "get_type v = Inr JUndefined"

text \<open>\<^verbatim>\<open>a || b\<close> on an optional string: \<^verbatim>\<open>undefined\<close> and the empty string are falsy.\<close>

fun or_else :: "string option \<Rightarrow> string \<Rightarrow> string" where
  "or_else None b = b"
| "or_else (Some a) b = (if a \<noteq> [] then a else b)"

text \<open>Decimal rendering of an integer inside a template literal.\<close>

definition digit :: "nat \<Rightarrow> char" where
  "digit n = ''0123456789'' ! n"

fun show_nat :: "nat \<Rightarrow> string" where
  "show_nat n = (if n < 10 then [digit n] else show_nat (n div 10) @ [digit (n mod 10)])"

declare show_nat.simps [simp del]

definition show_int :: "int \<Rightarrow> string" where
  "show_int i = (if i < 0 then CHR ''-'' # show_nat (nat (- i)) else show_nat (nat i))"

subsection \<open>Data of the connector\<close>

record axios_response =
  status :: int
  statusText :: string
  data :: jsval

record axios_error =
  response :: "axios_response option"
  code :: "string option"
  message :: string

datatype http_method = GET | POST | DELETE

text \<open>
  \<^verbatim>\<open>RequestOpts\<close>; \<^verbatim>\<open>http_method\<close> is its \<^verbatim>\<open>method\<close>, and \<^verbatim>\<open>opts_data\<close> is
  the \<^verbatim>\<open>data\<close> of a \<^verbatim>\<open>PostRequestOpts\<close> (\<^verbatim>\<open>undefined\<close> on a GET). The fields
  \<^verbatim>\<open>maxRPS\<close> and \<^verbatim>\<open>debug\<close> of the options are never read by \<^verbatim>\<open>request\<close>.
\<close>

record request_opts =
  http_method :: http_method
  endpoint :: string
  params :: jsval
  opts_data :: jsval
  requestId :: "string option"

text \<open>The argument of \<^verbatim>\<open>axiosInstance.request\<close>.\<close>

record axios_request_config =
  rq_method :: http_method
  rq_url :: string
  rq_data :: jsval
  rq_params :: jsval
  rq_headers :: "(string \<times> string) list"

text \<open>
  The fields of the \<^verbatim>\<open>Connector\<close> that \<^verbatim>\<open>request\<close> reads. The constructor stores
  \<^verbatim>\<open>init.retries ?? DEFAULT_RETRIES\<close> as it comes, so \<^verbatim>\<open>retries\<close> need not be a
  whole number.
\<close>

record connector =
  debug :: bool
  retries :: rat

text \<open>\<^verbatim>\<open>ApiResponse\<close>: the union of \<^verbatim>\<open>GoodApiResponse\<close> and \<^verbatim>\<open>BadApiResponse\<close>.\<close>

datatype api_response =
    GoodApiResponse jsval string
  | BadApiResponse jsval string

fun success :: "api_response \<Rightarrow> string" where
  "success (GoodApiResponse d k) = ''OK''"
| "success (BadApiResponse e k) = ''NO_OK''"

fun response_requestId :: "api_response \<Rightarrow> string" where
  "response_requestId (GoodApiResponse d k) = k"
| "response_requestId (BadApiResponse e k) = k"

text \<open>One round trip of the HTTP client: the promise resolves or rejects.\<close>

datatype outcome = Resolved axios_response | Rejected axios_error

type_synonym 's transport = "'s \<Rightarrow> axios_request_config \<Rightarrow> outcome \<times> 's"

text \<open>
  What the pipeline does that is visible outside: a request handed to the client, a
  debug line (attempt + 1, retries, waitTime), a wait of so many milliseconds.
\<close>

datatype event = Sent axios_request_config | Logged int rat int | Delay int

fun sent :: "event list \<Rightarrow> axios_request_config list" where
  "sent [] = []"
| "sent (Sent c # es) = c # sent es"
| "sent (e # es) = sent es"

fun delays :: "event list \<Rightarrow> int list" where
  "delays [] = []"
| "delays (Delay ms # es) = ms # delays es"
| "delays (e # es) = delays es"

subsection \<open>The retry policy\<close>

definition RETRY_DELAY :: int where
  "RETRY_DELAY = 1000"

fun isRetryableError :: "axios_error \<Rightarrow> bool" where
  "isRetryableError error =
     (case response error of
        None \<Rightarrow> True
      | Some r \<Rightarrow>
          if status r \<ge> 500 \<and> status r < 600 then True
          else if status r = 429 then True
          else False)"

subsection \<open>The request pipeline\<close>

text \<open>
  \<^verbatim>\<open>responseData && typeof responseData === 'object' && 'type' in responseData &&
  responseData.type === 'error'\<close>, left to right with short circuit; only its truthiness is
  used.
\<close>

definition isValidYooKassaError :: "jsval \<Rightarrow> js_error + bool" where
  "isValidYooKassaError responseData =
     (if \<not> truthy responseData then Inr False
      else if typeof responseData \<noteq> ''object'' then Inr False
      else case type_in responseData of
             Inl ex \<Rightarrow> Inl ex
           | Inr has \<Rightarrow>
               if \<not> has then Inr False
               else case get_type responseData of
                      Inl ex \<Rightarrow> Inl ex
                    | Inr t \<Rightarrow> Inr (t = JStr ''error''))"

text \<open>\<^verbatim>\<open>axiosError.response?.data\<close>\<close>

definition response_data :: "axios_error \<Rightarrow> jsval" where
  "response_data axiosError =
     (case response axiosError of None \<Rightarrow> JUndefined | Some r \<Rightarrow> data r)"

text \<open>The error payload built inside the loop from a failure without an API envelope.\<close>

definition synthesized_code :: "axios_error \<Rightarrow> string" where
  "synthesized_code axiosError =
     (case response axiosError of
        None \<Rightarrow> or_else (code axiosError) ''NETWORK_ERROR''
      | Some r \<Rightarrow>
          if status r \<noteq> 0 then ''HTTP_'' @ show_int (status r)
          else or_else (code axiosError) ''NETWORK_ERROR'')"

definition synthesized_description :: "axios_error \<Rightarrow> string" where
  "synthesized_description axiosError =
     (case response axiosError of
        None \<Rightarrow> or_else (Some (message axiosError)) ''Network error occurred''
      | Some r \<Rightarrow>
          if status r \<noteq> 0
          then ''HTTP '' @ show_int (status r) @ '': '' @
               or_else (Some (statusText r)) (message axiosError)
          else or_else (Some (message axiosError)) ''Network error occurred'')"

definition synthesized_error :: "string \<Rightarrow> axios_error \<Rightarrow> jsval" where
  "synthesized_error idempotenceKey axiosError =
     JObj [(''type'', JStr ''error''),
           (''id'', JStr idempotenceKey),
           (''code'', JStr (synthesized_code axiosError)),
           (''description'', JStr (synthesized_description axiosError))]"

text \<open>The payload of the block after the loop.\<close>

definition exhausted_error :: "string \<Rightarrow> axios_error option \<Rightarrow> jsval" where
  "exhausted_error idempotenceKey lastError =
     JObj [(''type'', JStr ''error''),
           (''id'', JStr idempotenceKey),
           (''code'', JStr (or_else (case lastError of None \<Rightarrow> None | Some e \<Rightarrow> code e)
                                    ''RETRY_EXHAUSTED'')),
           (''description'', JStr (or_else (map_option message lastError)
                                           ''All retry attempts failed''))]"

definition request_config :: "request_opts \<Rightarrow> string \<Rightarrow> axios_request_config" where
  "request_config opts idempotenceKey =
     \<lparr> rq_method = http_method opts,
       rq_url = endpoint opts,
       rq_data = (if http_method opts = POST then opts_data opts else JUndefined),
       rq_params = params opts,
       rq_headers = [(''Idempotence-Key'', idempotenceKey)] \<rparr>"

definition waitTime :: "nat \<Rightarrow> int" where
  "waitTime attempt = RETRY_DELAY * 2 ^ attempt"

text \<open>
  How the \<^verbatim>\<open>for\<close> loop ends: by a \<^verbatim>\<open>return\<close> in its body, by an exception that leaves
  the function, or by its condition turning false with \<^verbatim>\<open>lastError\<close> as it then is.
\<close>

datatype loop_exit = Return api_response | Throw js_error | Exhausted "axios_error option"

function request_loop ::
  "connector \<Rightarrow> request_opts \<Rightarrow> string \<Rightarrow> 's transport \<Rightarrow> nat \<Rightarrow> axios_error option \<Rightarrow> 's
     \<Rightarrow> loop_exit \<times> event list \<times> 's" where
  "request_loop this opts idempotenceKey transport attempt lastError s =
     (if of_nat attempt \<le> retries this then
        (case transport s (request_config opts idempotenceKey) of
           (Resolved resp, s') \<Rightarrow>
             (Return (GoodApiResponse (data resp) idempotenceKey),
              [Sent (request_config opts idempotenceKey)], s')
         | (Rejected axiosError, s') \<Rightarrow>
             (case isValidYooKassaError (response_data axiosError) of
                Inl ex \<Rightarrow> (Throw ex, [Sent (request_config opts idempotenceKey)], s')
              | Inr isValid \<Rightarrow>
                  if isValid \<and> \<not> isRetryableError axiosError then
                    (Return (BadApiResponse (response_data axiosError) idempotenceKey),
                     [Sent (request_config opts idempotenceKey)], s')
                  else if of_nat attempt < retries this \<and> isRetryableError axiosError then
                    (case request_loop this opts idempotenceKey transport (Suc attempt)
                            (Some axiosError) s' of
                       (exit, events, s'') \<Rightarrow>
                         (exit,
                          Sent (request_config opts idempotenceKey) #
                          (if debug this
                           then [Logged (int attempt + 1) (retries this) (waitTime attempt)]
                           else []) @
                          Delay (waitTime attempt) # events,
                          s''))
                  else if isValid then
                    (Return (BadApiResponse (response_data axiosError) idempotenceKey),
                     [Sent (request_config opts idempotenceKey)], s')
                  else
                    (Return (BadApiResponse (synthesized_error idempotenceKey axiosError)
                               idempotenceKey),
                     [Sent (request_config opts idempotenceKey)], s')))
      else (Exhausted lastError, [], s))"
  by pat_completeness auto
termination
  by (relation "measure (\<lambda>(this, opts, k, t, attempt, le, s).
                      nat (\<lfloor>retries this\<rfloor> + 1 - int attempt))")
     (auto simp add: le_floor_iff)

declare request_loop.simps [simp del]

text \<open>
  \<^verbatim>\<open>Connector.request\<close>: \<^verbatim>\<open>uuid\<close> is what \<^verbatim>\<open>randomUUID()\<close> returns when it is called.
  The result is the value the promise resolves to, or the exception it rejects with.
\<close>

definition idempotence_key :: "request_opts \<Rightarrow> string \<Rightarrow> string" where
  "idempotence_key opts uuid = (case requestId opts of None \<Rightarrow> uuid | Some k \<Rightarrow> k)"

definition request ::
  "connector \<Rightarrow> request_opts \<Rightarrow> string \<Rightarrow> 's transport \<Rightarrow> 's
     \<Rightarrow> (js_error + api_response) \<times> event list \<times> 's" where
  "request this opts uuid transport s =
     (case request_loop this opts (idempotence_key opts uuid) transport 0 None s of
        (Return r, events, s') \<Rightarrow> (Inr r, events, s')
      | (Throw ex, events, s') \<Rightarrow> (Inl ex, events, s')
      | (Exhausted lastError, events, s') \<Rightarrow>
          (Inr (BadApiResponse (exhausted_error (idempotence_key opts uuid) lastError)
                  (idempotence_key opts uuid)),
           events, s'))"

subsection \<open>Notions used to state the properties\<close>

text \<open>
  The API's structured error shape, in the words of the specification: the body is an
  object whose \<^verbatim>\<open>type\<close> is \<^verbatim>\<open>'error'\<close>.
\<close>

definition error_envelope :: "jsval \<Rightarrow> bool" where
  "error_envelope body =
     (case body of JObj kvs \<Rightarrow> map_of kvs ''type'' = Some (JStr ''error'') | _ \<Rightarrow> False)"

text \<open>The payload returned for a failure at which the loop stops.\<close>

definition final_error :: "string \<Rightarrow> axios_error \<Rightarrow> jsval" where
  "final_error idempotenceKey axiosError =
     (if error_envelope (response_data axiosError) then response_data axiosError
      else synthesized_error idempotenceKey axiosError)"

text \<open>The state of the HTTP client after \<open>n\<close> round trips with the same configuration.\<close>

fun transport_state :: "'s transport \<Rightarrow> axios_request_config \<Rightarrow> nat \<Rightarrow> 's \<Rightarrow> 's" where
  "transport_state t c 0 s = s"
| "transport_state t c (Suc n) s = transport_state t c n (snd (t s c))"

text \<open>\<^verbatim>\<open>errorData.code\<close> of a result.\<close>

fun errorData_code :: "api_response \<Rightarrow> jsval" where
  "errorData_code (BadApiResponse (JObj kvs) k) =
     (case map_of kvs ''code'' of None \<Rightarrow> JUndefined | Some v \<Rightarrow> v)"
| "errorData_code r = JUndefined"

subsection \<open>Concrete calls\<close>

definition always_rejecting :: "axios_error \<Rightarrow> unit transport" where
  "always_rejecting e s c = (Rejected e, s)"

definition payments_list :: request_opts where
  "payments_list =
     \<lparr> http_method = GET, endpoint = ''/payments'', params = JUndefined,
       opts_data = JUndefined, requestId = Some ''key-1'' \<rparr>"

definition payments_list_config :: axios_request_config where
  "payments_list_config =
     \<lparr> rq_method = GET, rq_url = ''/payments'', rq_data = JUndefined, rq_params = JUndefined,
       rq_headers = [(''Idempotence-Key'', ''key-1'')] \<rparr>"

definition network_error :: axios_error where
  "network_error = \<lparr> response = None, code = None, message = ''Network Error'' \<rparr>"

definition html_404 :: axios_error where
  "html_404 =
     \<lparr> response = Some \<lparr> status = 404, statusText = ''Not Found'', data = JStr ''<html></html>'' \<rparr>,
       code = Some ''ERR_BAD_REQUEST'', message = ''Request failed with status code 404'' \<rparr>"

definition html_503 :: axios_error where
  "html_503 =
     \<lparr> response = Some \<lparr> status = 503, statusText = ''Service Unavailable'',
                         data = JStr ''<html></html>'' \<rparr>,
       code = Some ''ERR_BAD_RESPONSE'', message = ''Request failed with status code 503'' \<rparr>"

definition invalid_request_body :: jsval where
  "invalid_request_body =
     JObj [(''type'', JStr ''error''), (''id'', JStr ''ab5a11cd''),
           (''code'', JStr ''invalid_request''), (''description'', JStr ''Missing amount'')]"

definition invalid_request_400 :: axios_error where
  "invalid_request_400 =
     \<lparr> response = Some \<lparr> status = 400, statusText = ''Bad Request'', data = invalid_request_body \<rparr>,
       code = Some ''ERR_BAD_REQUEST'', message = ''Request failed with status code 400'' \<rparr>"

definition created_payment :: axios_response where
  "created_payment =
     \<lparr> status = 200, statusText = ''OK'',
       data = JObj [(''id'', JStr ''2d1f''), (''status'', JStr ''pending'')] \<rparr>"

text \<open>A client that answers 503 once and 404 from then on; its state counts the requests.\<close>

definition rejecting_503_then_404 :: "nat transport" where
  "rejecting_503_then_404 s c = (Rejected (if s = 0 then html_503 else html_404), Suc s)"

text \<open>A client whose first two requests fail on the network and whose third succeeds.\<close>

definition failing_twice :: "nat transport" where
  "failing_twice s c =
     (if s < 2 then Rejected network_error else Resolved created_payment, Suc s)"

section \<open>Properties of the loop\<close>

lemma isValidYooKassaError_eq: "isValidYooKassaError d = Inr (error_envelope d)"
  by (cases d) (auto simp: isValidYooKassaError_def error_envelope_def split: option.splits)

lemma loop_exhausted:
  "\<not> of_nat a \<le> retries this \<Longrightarrow> request_loop this opts k tr a le s = (Exhausted le, [], s)"
  by (subst request_loop.simps) simp

lemma loop_resolved:
  "of_nat a \<le> retries this \<Longrightarrow> tr s (request_config opts k) = (Resolved resp, s') \<Longrightarrow>
   request_loop this opts k tr a le s =
     (Return (GoodApiResponse (data resp) k), [Sent (request_config opts k)], s')"
  by (subst request_loop.simps) simp

lemma loop_rejected:
  "of_nat a \<le> retries this \<Longrightarrow> tr s (request_config opts k) = (Rejected e, s') \<Longrightarrow>
   request_loop this opts k tr a le s =
     (if of_nat a < retries this \<and> isRetryableError e then
        (case request_loop this opts k tr (Suc a) (Some e) s' of
           (x, ev, s'') \<Rightarrow>
             (x, Sent (request_config opts k) #
                 (if debug this then [Logged (int a + 1) (retries this) (waitTime a)] else []) @
                 Delay (waitTime a) # ev, s''))
      else (Return (BadApiResponse (final_error k e) k), [Sent (request_config opts k)], s'))"
  by (subst request_loop.simps)
     (simp add: isValidYooKassaError_eq final_error_def del: isRetryableError.simps)

lemma loop_retried:
  "of_nat a < retries this \<Longrightarrow> tr s (request_config opts k) = (Rejected e, s') \<Longrightarrow>
   isRetryableError e \<Longrightarrow>
   request_loop this opts k tr a le s =
     (fst (request_loop this opts k tr (Suc a) (Some e) s'),
      Sent (request_config opts k) #
        (if debug this then [Logged (int a + 1) (retries this) (waitTime a)] else []) @
        Delay (waitTime a) # fst (snd (request_loop this opts k tr (Suc a) (Some e) s')),
      snd (snd (request_loop this opts k tr (Suc a) (Some e) s')))"
  by (simp add: loop_rejected split: prod.splits del: isRetryableError.simps)

lemma loop_returned:
  "of_nat a \<le> retries this \<Longrightarrow> tr s (request_config opts k) = (Rejected e, s') \<Longrightarrow>
   \<not> (of_nat a < retries this \<and> isRetryableError e) \<Longrightarrow>
   request_loop this opts k tr a le s =
     (Return (BadApiResponse (final_error k e) k), [Sent (request_config opts k)], s')"
  using loop_rejected[of a this tr s opts k e s' le] by (auto simp del: isRetryableError.simps)

lemma request_loop_cases [case_names exhausted resolved returned retried]:
  fixes tr :: "'s transport"
  assumes exhausted: "\<And>a le s. \<not> of_nat a \<le> retries this \<Longrightarrow> P a le s"
    and resolved: "\<And>a le s resp s'. of_nat a \<le> retries this \<Longrightarrow>
          tr s (request_config opts k) = (Resolved resp, s') \<Longrightarrow> P a le s"
    and returned: "\<And>a le s e s'. of_nat a \<le> retries this \<Longrightarrow>
          tr s (request_config opts k) = (Rejected e, s') \<Longrightarrow>
          \<not> (of_nat a < retries this \<and> isRetryableError e) \<Longrightarrow> P a le s"
    and retried: "\<And>a le s e s'. of_nat a < retries this \<Longrightarrow>
          tr s (request_config opts k) = (Rejected e, s') \<Longrightarrow> isRetryableError e \<Longrightarrow>
          P (Suc a) (Some e) s' \<Longrightarrow> P a le s"
  shows "P a le s"
proof (induction "nat (\<lfloor>retries this\<rfloor> + 1 - int a)" arbitrary: a le s)
  case 0
  then have "\<not> int a \<le> \<lfloor>retries this\<rfloor>" by linarith
  then have "\<not> of_nat a \<le> retries this" by (simp add: le_floor_iff)
  then show ?case by (rule exhausted)
next
  case (Suc n a le s)
  then have "int a \<le> \<lfloor>retries this\<rfloor>" by linarith
  then have le: "of_nat a \<le> retries this" by (simp add: le_floor_iff)
  obtain out s' where t: "tr s (request_config opts k) = (out, s')"
    by (cases "tr s (request_config opts k)")
  show ?case
  proof (cases out)
    case (Resolved resp)
    with le t show ?thesis by (intro resolved[of a s resp s']) auto
  next
    case (Rejected e)
    show ?thesis
    proof (cases "of_nat a < retries this \<and> isRetryableError e")
      case True
      have "n = nat (\<lfloor>retries this\<rfloor> + 1 - int (Suc a))" using Suc(2) by linarith
      then have "P (Suc a) (Some e) s'" by (rule Suc(1))
      with True t Rejected show ?thesis by (intro retried[of a s e s']) auto
    next
      case False
      with le t Rejected show ?thesis by (intro returned[of a s e s']) auto
    qed
  qed
qed

lemma loop_never_throws:
  "fst (request_loop this opts k tr a le s) \<noteq> Throw ex"
  by (induction a le s rule: request_loop_cases[where this=this and opts=opts and k=k and tr=tr])
     (simp_all add: loop_exhausted loop_resolved loop_returned loop_retried del: isRetryableError.simps)

lemma loop_requestId:
  "fst (request_loop this opts k tr a le s) = Return r \<Longrightarrow> response_requestId r = k"
  by (induction a le s rule: request_loop_cases[where this=this and opts=opts and k=k and tr=tr])
     (auto simp add: loop_exhausted loop_resolved loop_returned loop_retried simp del: isRetryableError.simps)

lemma loop_sent:
  "sent (fst (snd (request_loop this opts k tr a le s))) =
     replicate (length (sent (fst (snd (request_loop this opts k tr a le s))))) (request_config opts k)"
  by (induction a le s rule: request_loop_cases[where this=this and opts=opts and k=k and tr=tr])
     (simp_all add: loop_exhausted loop_resolved loop_returned loop_retried del: isRetryableError.simps)

lemma loop_sent_empty:
  "(sent (fst (snd (request_loop this opts k tr a le s))) = []) = (\<not> of_nat a \<le> retries this)"
  by (induction a le s rule: request_loop_cases[where this=this and opts=opts and k=k and tr=tr])
     (simp_all add: loop_exhausted loop_resolved loop_returned loop_retried del: isRetryableError.simps)

lemma loop_delays_le_sent:
  "length (delays (fst (snd (request_loop this opts k tr a le s)))) \<le>
     length (sent (fst (snd (request_loop this opts k tr a le s)))) \<and>
   length (sent (fst (snd (request_loop this opts k tr a le s)))) \<le>
     Suc (length (delays (fst (snd (request_loop this opts k tr a le s)))))"
  by (induction a le s rule: request_loop_cases[where this=this and opts=opts and k=k and tr=tr])
     (simp_all add: loop_exhausted loop_resolved loop_returned loop_retried del: isRetryableError.simps)

lemma loop_returns:
  assumes "retries this = of_int m"
  shows "of_nat a \<le> retries this \<Longrightarrow>
         \<exists>r. fst (request_loop this opts k tr a le s) = Return r"
proof (induction a le s rule: request_loop_cases[where this=this and opts=opts and k=k and tr=tr])
  case (retried a le s e s')
  have "(of_nat a :: rat) = of_int (int a)" by simp
  with retried(1) assms have "int a < m" by (simp only: of_int_less_iff)
  then have "int (Suc a) \<le> m" by simp
  then have "(of_int (int (Suc a)) :: rat) \<le> of_int m" by (simp only: of_int_le_iff)
  then have "of_nat (Suc a) \<le> retries this" using assms by simp
  with retried show ?case by (simp add: loop_retried del: isRetryableError.simps)
qed (simp_all add: loop_exhausted loop_resolved loop_returned del: isRetryableError.simps)

lemma loop_sent_delays:
  assumes "retries this = of_int m"
  shows "length (sent (fst (snd (request_loop this opts k tr a le s)))) =
     (if of_nat a \<le> retries this
      then Suc (length (delays (fst (snd (request_loop this opts k tr a le s))))) else 0)"
proof (induction a le s rule: request_loop_cases[where this=this and opts=opts and k=k and tr=tr])
  case (retried a le s e s')
  have "(of_nat a :: rat) = of_int (int a)" by simp
  with retried(1) assms have "int a < m" by (simp only: of_int_less_iff)
  then have "int (Suc a) \<le> m" by simp
  then have "(of_int (int (Suc a)) :: rat) \<le> of_int m" by (simp only: of_int_le_iff)
  then have "of_nat (Suc a) \<le> retries this" using assms by simp
  with retried show ?case by (simp add: loop_retried del: isRetryableError.simps)
qed (simp_all add: loop_exhausted loop_resolved loop_returned del: isRetryableError.simps)

lemma loop_delays_ex:
  "\<exists>n. delays (fst (snd (request_loop this opts k tr a le s))) =
         map (\<lambda>i. waitTime (a + i)) [0 ..< n]"
proof (induction a le s rule: request_loop_cases[where this=this and opts=opts and k=k and tr=tr])
  case (retried a le s e s')
  then obtain n where
    "delays (fst (snd (request_loop this opts k tr (Suc a) (Some e) s'))) =
       map (\<lambda>i. waitTime (Suc a + i)) [0 ..< n]" by blast
  then have "delays (fst (snd (request_loop this opts k tr a le s))) =
       map (\<lambda>i. waitTime (a + i)) [0 ..< Suc n]"
    using retried(1-3) by (simp add: loop_retried map_upt_Suc del: isRetryableError.simps upt_Suc)
  then show ?case by blast
qed (simp_all add: loop_exhausted loop_resolved loop_returned del: isRetryableError.simps)

lemma loop_delays:
  "delays (fst (snd (request_loop this opts k tr a le s))) =
     map (\<lambda>i. waitTime (a + i)) [0 ..< length (delays (fst (snd (request_loop this opts k tr a le s))))]"
proof -
  obtain n where n: "delays (fst (snd (request_loop this opts k tr a le s))) =
      map (\<lambda>i. waitTime (a + i)) [0 ..< n]"
    using loop_delays_ex[of this opts k tr a le s] by blast
  then have "length (delays (fst (snd (request_loop this opts k tr a le s)))) = n" by simp
  with n show ?thesis by simp
qed

lemma sent_append [simp]: "sent (xs @ ys) = sent xs @ sent ys"
  by (induction xs rule: sent.induct) simp_all

lemma delays_append [simp]: "delays (xs @ ys) = delays xs @ delays ys"
  by (induction xs rule: delays.induct) simp_all

lemma sent_log [simp]: "sent (if d then [Logged x y z] else []) = []"
  by simp

lemma delays_log [simp]: "delays (if d then [Logged x y z] else []) = []"
  by simp

lemma loop_position:
  fixes tr :: "'s transport"
  shows "j < length (sent (fst (snd (request_loop this opts k tr a le s)))) \<Longrightarrow>
   tr (transport_state tr (request_config opts k) j s) (request_config opts k) = (Rejected e, s') \<Longrightarrow>
   (j < length (delays (fst (snd (request_loop this opts k tr a le s))))) =
     (of_nat (a + j) < retries this \<and> isRetryableError e) \<and>
   (Suc j < length (sent (fst (snd (request_loop this opts k tr a le s))))) =
     (of_nat (Suc (a + j)) \<le> retries this \<and> isRetryableError e) \<and>
   (\<not> (of_nat (a + j) < retries this \<and> isRetryableError e) \<longrightarrow>
      fst (request_loop this opts k tr a le s) = Return (BadApiResponse (final_error k e) k) \<and>
      length (sent (fst (snd (request_loop this opts k tr a le s)))) = Suc j)"
proof (induction j arbitrary: a le s)
  case 0
  let ?c = "request_config opts k"
  from 0(1) have le: "of_nat a \<le> retries this"
    using loop_sent_empty[of this opts k tr a le s] by auto
  from 0(2) have t: "tr s ?c = (Rejected e, s')" by simp
  show ?case
  proof (cases "of_nat a < retries this \<and> isRetryableError e")
    case True
    then show ?thesis
      using t loop_sent_empty[of this opts k tr "Suc a" "Some e" s']
      by (auto simp add: loop_retried simp del: isRetryableError.simps)
  next
    case False
    have "\<not> (of_nat (Suc a) \<le> retries this \<and> isRetryableError e)"
      using False by auto
    then show ?thesis
      using False le t by (simp add: loop_returned del: isRetryableError.simps)
  qed
next
  case (Suc j a le s)
  let ?c = "request_config opts k"
  from Suc(2) have le: "of_nat a \<le> retries this"
    using loop_sent_empty[of this opts k tr a le s] by auto
  obtain out s1 where t: "tr s ?c = (out, s1)" by (cases "tr s ?c")
  show ?case
  proof (cases out)
    case (Resolved resp)
    with le t Suc(2) show ?thesis by (simp add: loop_resolved)
  next
    case (Rejected e0)
    show ?thesis
    proof (cases "of_nat a < retries this \<and> isRetryableError e0")
      case False
      with le t Rejected Suc(2) show ?thesis
        by (simp add: loop_returned del: isRetryableError.simps)
    next
      case True
      then have lt: "of_nat a < retries this" and r: "isRetryableError e0" by simp_all
      have t0: "tr s ?c = (Rejected e0, s1)" using t Rejected by simp
      have eq: "request_loop this opts k tr a le s =
         (fst (request_loop this opts k tr (Suc a) (Some e0) s1),
          Sent ?c # (if debug this then [Logged (int a + 1) (retries this) (waitTime a)] else []) @
            Delay (waitTime a) # fst (snd (request_loop this opts k tr (Suc a) (Some e0) s1)),
          snd (snd (request_loop this opts k tr (Suc a) (Some e0) s1)))"
        using lt t0 r by (rule loop_retried)
      have j: "j < length (sent (fst (snd (request_loop this opts k tr (Suc a) (Some e0) s1))))"
        using Suc(2) by (simp add: eq)
      have st: "tr (transport_state tr ?c j s1) ?c = (Rejected e, s')"
        using Suc(3) t by simp
      from Suc(1)[OF j st] show ?thesis by (simp add: eq)
    qed
  qed
qed

lemma loop_all_failed:
  fixes tr :: "'s transport"
  assumes whole: "retries this = of_nat n"
  shows "a \<le> n \<Longrightarrow>
    \<forall>j < length (sent (fst (snd (request_loop this opts k tr a le s)))).
       \<exists>e s'. tr (transport_state tr (request_config opts k) j s) (request_config opts k) =
                 (Rejected e, s') \<and> isRetryableError e \<Longrightarrow>
    \<exists>e s'. tr (transport_state tr (request_config opts k) (n - a) s) (request_config opts k) =
              (Rejected e, s') \<and>
            fst (request_loop this opts k tr a le s) = Return (BadApiResponse (final_error k e) k) \<and>
            length (sent (fst (snd (request_loop this opts k tr a le s)))) = Suc (n - a)"
proof (induction a le s rule: request_loop_cases[where this=this and opts=opts and k=k and tr=tr])
  case (exhausted a le s)
  then show ?case using whole by simp
next
  case (resolved a le s resp s')
  have ev: "request_loop this opts k tr a le s =
     (Return (GoodApiResponse (data resp) k), [Sent (request_config opts k)], s')"
    using resolved(1,2) by (rule loop_resolved)
  have "0 < length (sent (fst (snd (request_loop this opts k tr a le s))))" by (simp add: ev)
  with resolved(4) have "\<exists>e s'. tr (transport_state tr (request_config opts k) 0 s)
      (request_config opts k) = (Rejected e, s') \<and> isRetryableError e" by blast
  then show ?case using resolved(2) by simp
next
  case (returned a le s e s')
  let ?c = "request_config opts k"
  have ev: "request_loop this opts k tr a le s =
     (Return (BadApiResponse (final_error k e) k), [Sent ?c], s')"
    using returned(1-3) by (rule loop_returned)
  from returned(5) have "isRetryableError e" using returned(2) by (simp add: ev)
  with returned(3) have "\<not> of_nat a < retries this" by simp
  with returned(4) whole have "n - a = 0" by simp
  then show ?case using returned(2) by (simp add: ev)
next
  case (retried a le s e s1)
  let ?c = "request_config opts k"
  have eq: "request_loop this opts k tr a le s =
     (fst (request_loop this opts k tr (Suc a) (Some e) s1),
      Sent ?c # (if debug this then [Logged (int a + 1) (retries this) (waitTime a)] else []) @
        Delay (waitTime a) # fst (snd (request_loop this opts k tr (Suc a) (Some e) s1)),
      snd (snd (request_loop this opts k tr (Suc a) (Some e) s1)))"
    using retried(1-3) by (rule loop_retried)
  have lt: "a < n" using retried(1) whole by simp
  then have le': "Suc a \<le> n" by simp
  have all: "\<forall>j < length (sent (fst (snd (request_loop this opts k tr (Suc a) (Some e) s1)))).
       \<exists>e' s'. tr (transport_state tr ?c j s1) ?c = (Rejected e', s') \<and> isRetryableError e'"
  proof (intro allI impI)
    fix j
    assume "j < length (sent (fst (snd (request_loop this opts k tr (Suc a) (Some e) s1))))"
    then have "Suc j < length (sent (fst (snd (request_loop this opts k tr a le s))))"
      by (simp add: eq)
    with retried(6) have "\<exists>e' s'. tr (transport_state tr ?c (Suc j) s) ?c = (Rejected e', s') \<and>
        isRetryableError e'" by blast
    then show "\<exists>e' s'. tr (transport_state tr ?c j s1) ?c = (Rejected e', s') \<and>
        isRetryableError e'" using retried(2) by simp
  qed
  from retried(4)[OF le' all] obtain e' s' where
    "tr (transport_state tr ?c (n - Suc a) s1) ?c = (Rejected e', s')"
    "fst (request_loop this opts k tr (Suc a) (Some e) s1) =
       Return (BadApiResponse (final_error k e') k)"
    "length (sent (fst (snd (request_loop this opts k tr (Suc a) (Some e) s1)))) = Suc (n - Suc a)"
    by blast
  moreover have "n - a = Suc (n - Suc a)" using lt by simp
  ultimately show ?case using retried(2) by (simp add: eq)
qed

lemma loop_last_failure:
  fixes tr :: "'s transport"
  shows "fst (request_loop this opts k tr a le s) = Return (BadApiResponse err k') \<Longrightarrow>
   k' = k \<and>
   (\<exists>e s'. tr (transport_state tr (request_config opts k)
                 (length (sent (fst (snd (request_loop this opts k tr a le s)))) - 1) s)
              (request_config opts k) = (Rejected e, s') \<and>
           err = final_error k e)"
proof (induction a le s rule: request_loop_cases[where this=this and opts=opts and k=k and tr=tr])
  case (exhausted a le s)
  then show ?case by (simp add: loop_exhausted)
next
  case (resolved a le s resp s')
  then show ?case by (simp add: loop_resolved)
next
  case (returned a le s e s')
  then show ?case by (auto simp add: loop_returned simp del: isRetryableError.simps)
next
  case (retried a le s e s1)
  let ?c = "request_config opts k"
  let ?ev1 = "fst (snd (request_loop this opts k tr (Suc a) (Some e) s1))"
  have eq: "request_loop this opts k tr a le s =
     (fst (request_loop this opts k tr (Suc a) (Some e) s1),
      Sent ?c # (if debug this then [Logged (int a + 1) (retries this) (waitTime a)] else []) @
        Delay (waitTime a) # ?ev1,
      snd (snd (request_loop this opts k tr (Suc a) (Some e) s1)))"
    using retried(1-3) by (rule loop_retried)
  from retried(5) have r1: "fst (request_loop this opts k tr (Suc a) (Some e) s1) =
      Return (BadApiResponse err k')" by (simp add: eq)
  then have "of_nat (Suc a) \<le> retries this"
    using loop_exhausted[of "Suc a" this opts k tr "Some e" s1] by fastforce
  then have ne: "sent ?ev1 \<noteq> []"
    using loop_sent_empty[of this opts k tr "Suc a" "Some e" s1] by simp
  from retried(4)[OF r1] obtain e' s' where k: "k' = k"
    and t: "tr (transport_state tr ?c (length (sent ?ev1) - 1) s1) ?c = (Rejected e', s')"
    and err: "err = final_error k e'" by blast
  have "length (sent (fst (snd (request_loop this opts k tr a le s)))) - 1 =
          Suc (length (sent ?ev1) - 1)" using ne by (simp add: eq)
  then have "tr (transport_state tr ?c
               (length (sent (fst (snd (request_loop this opts k tr a le s)))) - 1) s) ?c =
             (Rejected e', s')" using t retried(2) by simp
  with k err show ?case by blast
qed

section \<open>Properties of a whole call\<close>

lemma request_events:
  "fst (snd (request this opts uuid tr s)) =
     fst (snd (request_loop this opts (idempotence_key opts uuid) tr 0 None s))"
  by (simp add: request_def split: prod.splits loop_exit.splits)

lemma request_of_return:
  "fst (request_loop this opts (idempotence_key opts uuid) tr 0 None s) = Return r \<Longrightarrow>
   request this opts uuid tr s =
     (Inr r, snd (request_loop this opts (idempotence_key opts uuid) tr 0 None s))"
  by (cases "request_loop this opts (idempotence_key opts uuid) tr 0 None s")
     (simp add: request_def)

lemma request_result:
  "\<exists>r. fst (request this opts uuid tr s) = Inr r \<and>
       response_requestId r = idempotence_key opts uuid"
proof (cases "fst (request_loop this opts (idempotence_key opts uuid) tr 0 None s)")
  case (Return r)
  then show ?thesis using loop_requestId[OF Return] by (simp add: request_of_return)
next
  case (Throw ex)
  then show ?thesis using loop_never_throws[of this opts "idempotence_key opts uuid" tr 0 None s ex] by simp
next
  case (Exhausted le)
  then show ?thesis by (auto simp add: request_def split: prod.splits)
qed

lemma request_first_returned:
  assumes "0 \<le> retries this"
    and "transport s (request_config opts (idempotence_key opts uuid)) = (Rejected e, s')"
    and "\<not> (0 < retries this \<and> isRetryableError e)"
  shows "request this opts uuid transport s =
     (Inr (BadApiResponse (final_error (idempotence_key opts uuid) e) (idempotence_key opts uuid)),
      [Sent (request_config opts (idempotence_key opts uuid))], s')"
proof -
  have "request_loop this opts (idempotence_key opts uuid) transport 0 None s =
     (Return (BadApiResponse (final_error (idempotence_key opts uuid) e) (idempotence_key opts uuid)),
      [Sent (request_config opts (idempotence_key opts uuid))], s')"
    using assms by (intro loop_returned) auto
  then show ?thesis by (simp add: request_def)
qed

lemma retryable_code:
  "isRetryableError e \<Longrightarrow>
   synthesized_code e =
     (case response e of None \<Rightarrow> or_else (code e) ''NETWORK_ERROR''
      | Some r \<Rightarrow> ''HTTP_'' @ show_int (status r))"
  by (auto simp add: synthesized_code_def split: option.splits if_splits)

section \<open>The retry policy\<close>

text \<open>
  C2. \<^verbatim>\<open>isRetryableError\<close> holds exactly when no response was received, or the
  status of the response lies in [500, 600), or it is 429.
\<close>

theorem isRetryableError_iff:
  "isRetryableError error \<longleftrightarrow>
     (response error = None \<or>
      (\<exists>r. response error = Some r \<and> (500 \<le> status r \<and> status r < 600 \<or> status r = 429)))"
  by (auto split: option.splits)

section \<open>The idempotency key\<close>

text \<open>
  C1. The key of a call is the \<^verbatim>\<open>requestId\<close> of the options when there is one and the
  generated UUID otherwise; every request handed to the client carries exactly this key as
  its \<^verbatim>\<open>Idempotence-Key\<close> header; and the call yields a result, good or bad, whose
  \<^verbatim>\<open>requestId\<close> is this key.
\<close>

theorem idempotence_key_on_every_attempt:
  "idempotence_key opts uuid = (case requestId opts of Some k \<Rightarrow> k | None \<Rightarrow> uuid) \<and>
   map rq_headers (sent (fst (snd (request this opts uuid transport s)))) =
     replicate (length (sent (fst (snd (request this opts uuid transport s)))))
       [(''Idempotence-Key'', idempotence_key opts uuid)] \<and>
   (\<exists>r. fst (request this opts uuid transport s) = Inr r \<and>
        response_requestId r = idempotence_key opts uuid)"
proof -
  let ?ev = "fst (snd (request_loop this opts (idempotence_key opts uuid) transport 0 None s))"
  have "map rq_headers (sent ?ev) =
          map rq_headers (replicate (length (sent ?ev)) (request_config opts (idempotence_key opts uuid)))"
    using loop_sent[of this opts "idempotence_key opts uuid" transport 0 None s] by simp
  then have "map rq_headers (sent ?ev) =
          replicate (length (sent ?ev)) [(''Idempotence-Key'', idempotence_key opts uuid)]"
    by (simp add: request_config_def)
  then show ?thesis
    using request_result[of this opts uuid transport s]
    by (simp add: request_events idempotence_key_def split: option.splits)
qed

section \<open>No exception leaves the pipeline\<close>

text \<open>
  C8. Whatever the client answers, \<^verbatim>\<open>request\<close> ends with a result and never with an
  exception, and the \<^verbatim>\<open>success\<close> tag of the result is one of \<^verbatim>\<open>'OK'\<close> and
  \<^verbatim>\<open>'NO_OK'\<close>, not both.
\<close>

theorem request_never_throws:
  "\<exists>r. fst (request this opts uuid transport s) = Inr r \<and>
       (success r = ''OK'') \<noteq> (success r = ''NO_OK'')"
proof -
  obtain r where r: "fst (request this opts uuid transport s) = Inr r"
    using request_result[of this opts uuid transport s] by blast
  have "(success r = ''OK'') \<noteq> (success r = ''NO_OK'')" by (cases r) simp_all
  with r show ?thesis by blast
qed

section \<open>Backoff\<close>

text \<open>
  C7. The waits of a call are, in order, 1000 * 2 ^ i milliseconds for i = 0, 1, 2, ...
  with nothing added and no cap. A wait follows a request: there are as many waits as
  requests or one less, and exactly one less, one wait between two successive attempts,
  when \<^verbatim>\<open>retries\<close> is a whole number.
\<close>

theorem backoff_delays:
  "delays (fst (snd (request this opts uuid transport s))) =
     map (\<lambda>i. 1000 * 2 ^ i) [0 ..< length (delays (fst (snd (request this opts uuid transport s))))] \<and>
   length (delays (fst (snd (request this opts uuid transport s)))) \<le>
     length (sent (fst (snd (request this opts uuid transport s)))) \<and>
   length (sent (fst (snd (request this opts uuid transport s)))) - 1 \<le>
     length (delays (fst (snd (request this opts uuid transport s)))) \<and>
   (retries this \<in> \<int> \<longrightarrow>
      length (delays (fst (snd (request this opts uuid transport s)))) =
        length (sent (fst (snd (request this opts uuid transport s)))) - 1)"
proof -
  let ?k = "idempotence_key opts uuid"
  let ?ev = "fst (snd (request_loop this opts ?k transport 0 None s))"
  have "delays ?ev = map (\<lambda>i. waitTime (0 + i)) [0 ..< length (delays ?ev)]"
    by (rule loop_delays)
  then have d: "delays ?ev = map (\<lambda>i. 1000 * 2 ^ i) [0 ..< length (delays ?ev)]"
    by (simp add: waitTime_def RETRY_DELAY_def)
  have b: "length (delays ?ev) \<le> length (sent ?ev) \<and> length (sent ?ev) - 1 \<le> length (delays ?ev)"
    using loop_delays_le_sent[of this opts ?k transport 0 None s] by linarith
  have w: "retries this \<in> \<int> \<longrightarrow> length (delays ?ev) = length (sent ?ev) - 1"
  proof
    assume "retries this \<in> \<int>"
    then obtain m where m: "retries this = of_int m" by (rule Ints_cases)
    show "length (delays ?ev) = length (sent ?ev) - 1"
      using loop_sent_delays[OF m, of opts ?k transport 0 None s]
        loop_sent_empty[of this opts ?k transport 0 None s] b
      by (cases "of_nat 0 \<le> retries this") (simp_all add: loop_exhausted)
  qed
  from d b w show ?thesis by (simp only: request_events)
qed

text \<open>
  Three retries against the 503 page: four requests and three waits.
\<close>

theorem backoff_delays_witness:
  "retries \<lparr> debug = False, retries = 3 \<rparr> \<in> \<int> \<and>
   length (sent (fst (snd (request \<lparr> debug = False, retries = 3 \<rparr> payments_list ''uuid''
                       (always_rejecting html_503) ())))) = 4 \<and>
   length (delays (fst (snd (request \<lparr> debug = False, retries = 3 \<rparr> payments_list ''uuid''
                       (always_rejecting html_503) ())))) = 3"
proof -
  have h: "retries \<lparr> debug = False, retries = 3 \<rparr> \<in> \<int>" by simp
  have s: "length (sent (fst (snd (request \<lparr> debug = False, retries = 3 \<rparr> payments_list ''uuid''
                       (always_rejecting html_503) ())))) = 4" by code_simp
  have "length (delays (fst (snd (request \<lparr> debug = False, retries = 3 \<rparr> payments_list ''uuid''
                       (always_rejecting html_503) ())))) =
        length (sent (fst (snd (request \<lparr> debug = False, retries = 3 \<rparr> payments_list ''uuid''
                       (always_rejecting html_503) ())))) - 1"
    using backoff_delays[of "\<lparr> debug = False, retries = 3 \<rparr>" payments_list "''uuid''"
            "always_rejecting html_503" "()"] h by blast
  then show ?thesis using h s by simp
qed

section \<open>A client error with an API envelope\<close>

text \<open>
  C6. When the first attempt of a call is rejected with status 400 and a body that is an
  API error envelope, the call returns that body as its error after this single request,
  without waiting and without a further attempt.
\<close>

theorem client_error_envelope_is_terminal:
  assumes "0 \<le> retries this"
    and "transport s (request_config opts (idempotence_key opts uuid)) = (Rejected e, s')"
    and "response e = Some r"
    and "status r = 400"
    and "error_envelope (data r)"
  shows "request this opts uuid transport s =
     (Inr (BadApiResponse (data r) (idempotence_key opts uuid)),
      [Sent (request_config opts (idempotence_key opts uuid))], s')"
proof -
  have "\<not> isRetryableError e" using assms(3,4) by simp
  moreover have "final_error (idempotence_key opts uuid) e = data r"
    using assms(3,5) by (simp add: final_error_def response_data_def)
  ultimately show ?thesis
    using request_first_returned[where transport=transport and s=s, OF assms(1,2)] by simp
qed

text \<open>
  A connector with five retries on a permanent \<^verbatim>\<open>invalid_request\<close> answer.
\<close>

theorem client_error_envelope_is_terminal_witness:
  "(0::rat) \<le> retries \<lparr> debug = False, retries = 5 \<rparr> \<and>
   always_rejecting invalid_request_400 ()
     (request_config payments_list (idempotence_key payments_list ''uuid'')) =
     (Rejected invalid_request_400, ()) \<and>
   response invalid_request_400 =
     Some \<lparr> status = 400, statusText = ''Bad Request'', data = invalid_request_body \<rparr> \<and>
   error_envelope invalid_request_body \<and>
   request \<lparr> debug = False, retries = 5 \<rparr> payments_list ''uuid''
      (always_rejecting invalid_request_400) () =
     (Inr (BadApiResponse invalid_request_body ''key-1''), [Sent payments_list_config], ())"
proof -
  have h1: "(0::rat) \<le> retries \<lparr> debug = False, retries = 5 \<rparr>" by simp
  have h2: "always_rejecting invalid_request_400 ()
     (request_config payments_list (idempotence_key payments_list ''uuid'')) =
     (Rejected invalid_request_400, ())" by (simp add: always_rejecting_def)
  have h3: "response invalid_request_400 =
     Some \<lparr> status = 400, statusText = ''Bad Request'', data = invalid_request_body \<rparr>"
    by (simp add: invalid_request_400_def)
  have h4: "status \<lparr> status = 400, statusText = ''Bad Request'', data = invalid_request_body \<rparr> = 400"
    by simp
  have h5: "error_envelope (data \<lparr> status = 400, statusText = ''Bad Request'', data = invalid_request_body \<rparr>)"
    by (simp add: error_envelope_def invalid_request_body_def)
  show ?thesis
    using client_error_envelope_is_terminal[where transport="always_rejecting invalid_request_400" and s="()", OF h1 h2 h3 h4 h5] h1 h2 h3 h5
    by (simp add: idempotence_key_def request_config_def payments_list_def payments_list_config_def)
qed

section \<open>A transport that always answers 503\<close>



section \<open>The loop returns from its body\<close>

text \<open>
  The statement that the block after the loop is unreachable for every \<^verbatim>\<open>retries\<close> that
  is at least 0 does not hold: with \<^verbatim>\<open>retries\<close> = 0.5 and a network failure, the first
  iteration waits and continues, the condition of the loop then fails, and the call returns
  the payload of the block after the loop.
\<close>

theorem post_loop_reached_counterexample:
  "(0::rat) \<le> retries \<lparr> debug = False, retries = 1 / 2 \<rparr> \<and>
   request_loop \<lparr> debug = False, retries = 1 / 2 \<rparr> payments_list ''key-1''
      (always_rejecting network_error) 0 None () =
     (Exhausted (Some network_error), [Sent payments_list_config, Delay 1000], ()) \<and>
   request \<lparr> debug = False, retries = 1 / 2 \<rparr> payments_list ''uuid''
      (always_rejecting network_error) () =
     (Inr (BadApiResponse
             (JObj [(''type'', JStr ''error''), (''id'', JStr ''key-1''),
                    (''code'', JStr ''RETRY_EXHAUSTED''),
                    (''description'', JStr ''Network Error'')])
             ''key-1''),
      [Sent payments_list_config, Delay 1000], ())"
  by code_simp

text \<open>
  C9, as the code has it. When \<^verbatim>\<open>retries\<close> is a whole number, from every attempt index
  that does not exceed it the loop ends with a \<^verbatim>\<open>return\<close> of its body, so the block
  after the loop is not reached; the iteration with \<^verbatim>\<open>attempt == retries\<close> returns itself,
  after its one request; and an iteration whose request is rejected either returns a bad
  result at once or, when a retry is left, goes on with the next attempt.
\<close>

theorem returns_inside_loop:
  assumes "retries this = of_int m"
    and "of_nat attempt \<le> retries this"
  shows "(\<exists>r. fst (request_loop this opts k transport attempt lastError s) = Return r) \<and>
         (of_nat attempt = retries this \<longrightarrow>
            fst (snd (request_loop this opts k transport attempt lastError s)) =
              [Sent (request_config opts k)]) \<and>
         (\<forall>e s'. transport s (request_config opts k) = (Rejected e, s') \<longrightarrow>
            (\<exists>errorData. request_loop this opts k transport attempt lastError s =
               (Return (BadApiResponse errorData k), [Sent (request_config opts k)], s')) \<or>
            of_nat attempt < retries this \<and>
            fst (request_loop this opts k transport attempt lastError s) =
              fst (request_loop this opts k transport (Suc attempt) (Some e) s'))"
proof (intro conjI)
  show "\<exists>r. fst (request_loop this opts k transport attempt lastError s) = Return r"
    using assms by (rule loop_returns)
next
  show "of_nat attempt = retries this \<longrightarrow>
            fst (snd (request_loop this opts k transport attempt lastError s)) =
              [Sent (request_config opts k)]"
  proof
    assume eq: "of_nat attempt = retries this"
    obtain out s' where t: "transport s (request_config opts k) = (out, s')"
      by (cases "transport s (request_config opts k)")
    show "fst (snd (request_loop this opts k transport attempt lastError s)) =
              [Sent (request_config opts k)]"
    proof (cases out)
      case (Resolved resp)
      with eq t show ?thesis by (simp add: loop_resolved)
    next
      case (Rejected e)
      with eq t show ?thesis by (simp add: loop_returned del: isRetryableError.simps)
    qed
  qed
next
  show "\<forall>e s'. transport s (request_config opts k) = (Rejected e, s') \<longrightarrow>
            (\<exists>errorData. request_loop this opts k transport attempt lastError s =
               (Return (BadApiResponse errorData k), [Sent (request_config opts k)], s')) \<or>
            of_nat attempt < retries this \<and>
            fst (request_loop this opts k transport attempt lastError s) =
              fst (request_loop this opts k transport (Suc attempt) (Some e) s')"
  proof (intro allI impI)
    fix e s'
    assume t: "transport s (request_config opts k) = (Rejected e, s')"
    show "(\<exists>errorData. request_loop this opts k transport attempt lastError s =
               (Return (BadApiResponse errorData k), [Sent (request_config opts k)], s')) \<or>
            of_nat attempt < retries this \<and>
            fst (request_loop this opts k transport attempt lastError s) =
              fst (request_loop this opts k transport (Suc attempt) (Some e) s')"
    proof (cases "of_nat attempt < retries this \<and> isRetryableError e")
      case True
      then show ?thesis using t by (simp add: loop_retried del: isRetryableError.simps)
    next
      case False
      then show ?thesis using t assms(2) by (simp add: loop_returned del: isRetryableError.simps)
    qed
  qed
qed

text \<open>
  The loop of a connector without retries, at attempt 0, on a network failure.
\<close>

theorem returns_inside_loop_witness:
  "retries \<lparr> debug = False, retries = 0 \<rparr> = of_int 0 \<and>
   of_nat 0 \<le> retries \<lparr> debug = False, retries = 0 \<rparr> \<and>
   (\<exists>r. fst (request_loop \<lparr> debug = False, retries = 0 \<rparr> payments_list ''key-1''
               (always_rejecting network_error) 0 None ()) = Return r) \<and>
   fst (snd (request_loop \<lparr> debug = False, retries = 0 \<rparr> payments_list ''key-1''
               (always_rejecting network_error) 0 None ())) =
     [Sent (request_config payments_list ''key-1'')] \<and>
   always_rejecting network_error () (request_config payments_list ''key-1'') =
     (Rejected network_error, ()) \<and>
   (\<exists>errorData. request_loop \<lparr> debug = False, retries = 0 \<rparr> payments_list ''key-1''
               (always_rejecting network_error) 0 None () =
      (Return (BadApiResponse errorData ''key-1''),
       [Sent (request_config payments_list ''key-1'')], ()))"
proof -
  have h1: "retries \<lparr> debug = False, retries = 0 \<rparr> = of_int 0" by simp
  have h2: "of_nat 0 \<le> retries \<lparr> debug = False, retries = 0 \<rparr>" by simp
  have t: "always_rejecting network_error () (request_config payments_list ''key-1'') =
     (Rejected network_error, ())" by (simp add: always_rejecting_def)
  show ?thesis
    using returns_inside_loop[OF h1 h2, of payments_list "''key-1''" "always_rejecting network_error" None "()"] t
    by simp
qed

section \<open>Failures whose body is not an API envelope\<close>

text \<open>
  The statement that such a failure is retried whatever its status does not hold: a 404
  with a page of markup as its body ends the call after one request, with three retries
  left.
\<close>

theorem malformed_body_not_retried_counterexample:
  "\<not> error_envelope (response_data html_404) \<and>
   request \<lparr> debug = False, retries = 3 \<rparr> payments_list ''uuid'' (always_rejecting html_404) () =
    (Inr (BadApiResponse
            (JObj [(''type'', JStr ''error''), (''id'', JStr ''key-1''),
                   (''code'', JStr ''HTTP_404''),
                   (''description'', JStr ''HTTP 404: Not Found'')])
            ''key-1''),
     [Sent payments_list_config], ())"
  by code_simp

text \<open>
  C3, as the code has it. Take any attempt of a call, the one with index j, whose request
  is rejected with a body that is not an API envelope. The pipeline waits after it exactly
  when \<^verbatim>\<open>j < retries\<close> and \<^verbatim>\<open>isRetryableError\<close> holds of the rejection
  (no response, status 5xx or 429), and sends a further request exactly when moreover
  \<^verbatim>\<open>j + 1 <= retries\<close>. In every other case, in particular for a 4xx status other than
  429, the call returns at once the payload synthesized from that rejection, and attempt j
  was its last.
\<close>

theorem malformed_body_retried_by_status:
  fixes transport :: "'s transport"
  assumes "j < length (sent (fst (snd (request this opts uuid transport s))))"
    and "transport (transport_state transport (request_config opts (idempotence_key opts uuid)) j s)
           (request_config opts (idempotence_key opts uuid)) = (Rejected e, s')"
    and "\<not> error_envelope (response_data e)"
  shows "(j < length (delays (fst (snd (request this opts uuid transport s))))) =
           (of_nat j < retries this \<and> isRetryableError e) \<and>
         (Suc j < length (sent (fst (snd (request this opts uuid transport s))))) =
           (of_nat (Suc j) \<le> retries this \<and> isRetryableError e) \<and>
         (\<not> (of_nat j < retries this \<and> isRetryableError e) \<longrightarrow>
            fst (request this opts uuid transport s) =
              Inr (BadApiResponse (synthesized_error (idempotence_key opts uuid) e)
                     (idempotence_key opts uuid)) \<and>
            length (sent (fst (snd (request this opts uuid transport s)))) = Suc j)"
proof -
  let ?k = "idempotence_key opts uuid"
  let ?L = "request_loop this opts ?k transport 0 None s"
  have j: "j < length (sent (fst (snd ?L)))" using assms(1) by (simp only: request_events)
  have p: "(j < length (delays (fst (snd ?L)))) =
             (of_nat (0 + j) < retries this \<and> isRetryableError e) \<and>
           (Suc j < length (sent (fst (snd ?L)))) =
             (of_nat (Suc (0 + j)) \<le> retries this \<and> isRetryableError e) \<and>
           (\<not> (of_nat (0 + j) < retries this \<and> isRetryableError e) \<longrightarrow>
              fst ?L = Return (BadApiResponse (final_error ?k e) ?k) \<and>
              length (sent (fst (snd ?L))) = Suc j)"
    using j assms(2) by (rule loop_position)
  have f: "final_error ?k e = synthesized_error ?k e" using assms(3) by (simp add: final_error_def)
  have r: "fst ?L = Return (BadApiResponse (final_error ?k e) ?k) \<Longrightarrow>
           fst (request this opts uuid transport s) =
             Inr (BadApiResponse (synthesized_error ?k e) ?k)"
    by (simp add: request_of_return f)
  from p r show ?thesis by (simp add: request_events del: isRetryableError.simps)
qed

text \<open>
  A client that answers 503 and then 404, both with a page of markup: the 404 of the second
  attempt ends the call, with two retries left.
\<close>

theorem malformed_body_retried_by_status_witness:
  "(1::nat) < length (sent (fst (snd (request \<lparr> debug = False, retries = 3 \<rparr> payments_list
                                        ''uuid'' rejecting_503_then_404 0)))) \<and>
   rejecting_503_then_404
     (transport_state rejecting_503_then_404
        (request_config payments_list (idempotence_key payments_list ''uuid'')) 1 0)
     (request_config payments_list (idempotence_key payments_list ''uuid'')) =
     (Rejected html_404, 2) \<and>
   \<not> error_envelope (response_data html_404) \<and>
   \<not> isRetryableError html_404 \<and>
   fst (request \<lparr> debug = False, retries = 3 \<rparr> payments_list ''uuid'' rejecting_503_then_404 0) =
     Inr (BadApiResponse (synthesized_error ''key-1'' html_404) ''key-1'') \<and>
   length (sent (fst (snd (request \<lparr> debug = False, retries = 3 \<rparr> payments_list ''uuid''
                             rejecting_503_then_404 0)))) = 2 \<and>
   length (delays (fst (snd (request \<lparr> debug = False, retries = 3 \<rparr> payments_list ''uuid''
                               rejecting_503_then_404 0)))) = 1"
proof -
  have h1: "(1::nat) < length (sent (fst (snd (request \<lparr> debug = False, retries = 3 \<rparr>
                 payments_list ''uuid'' rejecting_503_then_404 0))))" by code_simp
  have h2: "rejecting_503_then_404
     (transport_state rejecting_503_then_404
        (request_config payments_list (idempotence_key payments_list ''uuid'')) 1 0)
     (request_config payments_list (idempotence_key payments_list ''uuid'')) =
     (Rejected html_404, 2)" by (simp add: rejecting_503_then_404_def)
  have h3: "\<not> error_envelope (response_data html_404)"
    by (simp add: error_envelope_def response_data_def html_404_def)
  have h4: "\<not> isRetryableError html_404" by (simp add: html_404_def)
  have k: "idempotence_key payments_list ''uuid'' = ''key-1''"
    by (simp add: idempotence_key_def payments_list_def)
  have d: "length (delays (fst (snd (request \<lparr> debug = False, retries = 3 \<rparr> payments_list ''uuid''
                               rejecting_503_then_404 0)))) = 1" by code_simp
  show ?thesis
    using malformed_body_retried_by_status[where transport=rejecting_503_then_404 and s=0
            and this="\<lparr> debug = False, retries = 3 \<rparr>" and j=1, OF h1 h2 h3] h1 h2 h3 h4 d
    by (simp add: k del: isRetryableError.simps)
qed

section \<open>The code after the retries are used up\<close>

text \<open>
  The statement that the error code is then \<^verbatim>\<open>RETRY_EXHAUSTED\<close> does not hold: with one
  retry and a network failure without a code on both attempts, the code of the result is
  \<^verbatim>\<open>NETWORK_ERROR\<close>.
\<close>

theorem retry_exhausted_code_counterexample:
  "isRetryableError network_error \<and>
   \<not> error_envelope (response_data network_error) \<and>
   request \<lparr> debug = False, retries = 1 \<rparr> payments_list ''uuid''
      (always_rejecting network_error) () =
     (Inr (BadApiResponse
             (JObj [(''type'', JStr ''error''), (''id'', JStr ''key-1''),
                    (''code'', JStr ''NETWORK_ERROR''),
                    (''description'', JStr ''Network Error'')])
             ''key-1''),
      [Sent payments_list_config, Delay 1000, Sent payments_list_config], ()) \<and>
   errorData_code
     (BadApiResponse
        (JObj [(''type'', JStr ''error''), (''id'', JStr ''key-1''),
               (''code'', JStr ''NETWORK_ERROR''),
               (''description'', JStr ''Network Error'')])
        ''key-1'') \<noteq> JStr ''RETRY_EXHAUSTED''"
  by code_simp

text \<open>
  C4, as the code has it. Let \<^verbatim>\<open>retries\<close> be a whole number n that is at least 0. When
  every attempt that the call makes is rejected with a retryable failure that carries no
  API envelope, the call makes n + 1 attempts and returns the payload synthesized inside
  the loop from the last rejection; its code is \<^verbatim>\<open>HTTP_<status>\<close> when that rejection has
  a response, else the rejection's own code when it has a non-empty one, else
  \<^verbatim>\<open>NETWORK_ERROR\<close>.
\<close>

theorem retry_exhaustion_code:
  fixes transport :: "'s transport"
  assumes "retries this = of_nat n"
    and "\<forall>j < length (sent (fst (snd (request this opts uuid transport s)))).
           \<exists>e s'. transport (transport_state transport
                       (request_config opts (idempotence_key opts uuid)) j s)
                     (request_config opts (idempotence_key opts uuid)) = (Rejected e, s') \<and>
                   isRetryableError e \<and> \<not> error_envelope (response_data e)"
  shows "\<exists>e s'. transport (transport_state transport
                     (request_config opts (idempotence_key opts uuid)) n s)
                   (request_config opts (idempotence_key opts uuid)) = (Rejected e, s') \<and>
             fst (request this opts uuid transport s) =
               Inr (BadApiResponse (synthesized_error (idempotence_key opts uuid) e)
                      (idempotence_key opts uuid)) \<and>
             errorData_code (BadApiResponse (synthesized_error (idempotence_key opts uuid) e)
                               (idempotence_key opts uuid)) =
               JStr (case response e of
                       None \<Rightarrow> or_else (code e) ''NETWORK_ERROR''
                     | Some r \<Rightarrow> ''HTTP_'' @ show_int (status r)) \<and>
             length (sent (fst (snd (request this opts uuid transport s)))) = n + 1"
proof -
  let ?k = "idempotence_key opts uuid"
  let ?c = "request_config opts ?k"
  let ?ev = "fst (snd (request_loop this opts ?k transport 0 None s))"
  have all: "\<forall>j < length (sent ?ev).
           \<exists>e s'. transport (transport_state transport ?c j s) ?c = (Rejected e, s') \<and>
                   isRetryableError e \<and> \<not> error_envelope (response_data e)"
    using assms(2) by (simp only: request_events)
  then have fails: "\<forall>j < length (sent ?ev).
           \<exists>e s'. transport (transport_state transport ?c j s) ?c = (Rejected e, s') \<and>
                   isRetryableError e" by blast
  obtain e s' where
    e: "transport (transport_state transport ?c (n - 0) s) ?c = (Rejected e, s')"
    and r: "fst (request_loop this opts ?k transport 0 None s) =
          Return (BadApiResponse (final_error ?k e) ?k)"
    and l: "length (sent ?ev) = Suc (n - 0)"
    using loop_all_failed[where tr=transport and this=this and n=n and a=0 and opts=opts
            and k="?k" and le=None and s=s, OF assms(1) _ fails] by auto
  have "n < length (sent ?ev)" using l by simp
  with all obtain e' s'' where
    "transport (transport_state transport ?c n s) ?c = (Rejected e', s'')"
    "isRetryableError e'" "\<not> error_envelope (response_data e')"
    by blast
  with e have re: "isRetryableError e" and ne: "\<not> error_envelope (response_data e)" by simp_all
  have "errorData_code (BadApiResponse (synthesized_error ?k e) ?k) =
          JStr (case response e of
                  None \<Rightarrow> or_else (code e) ''NETWORK_ERROR''
                | Some r \<Rightarrow> ''HTTP_'' @ show_int (status r))"
    using retryable_code[OF re] by (simp add: synthesized_error_def)
  then show ?thesis
    using e r l ne
    by (auto simp add: request_events request_of_return final_error_def)
qed

text \<open>
  One retry against a client that fails twice on the network and would succeed the third
  time: both attempts of the call fail.
\<close>

theorem retry_exhaustion_code_witness:
  "retries \<lparr> debug = False, retries = 1 \<rparr> = of_nat 1 \<and>
   length (sent (fst (snd (request \<lparr> debug = False, retries = 1 \<rparr> payments_list ''uuid''
                             failing_twice 0)))) = 2 \<and>
   fst (request \<lparr> debug = False, retries = 1 \<rparr> payments_list ''uuid'' failing_twice 0) =
     Inr (BadApiResponse (synthesized_error ''key-1'' network_error) ''key-1'') \<and>
   errorData_code (BadApiResponse (synthesized_error ''key-1'' network_error) ''key-1'') =
     JStr ''NETWORK_ERROR''"
proof -
  let ?con = "\<lparr> debug = False, retries = 1 \<rparr>"
  have h1: "retries ?con = of_nat 1" by simp
  have k: "idempotence_key payments_list ''uuid'' = ''key-1''"
    by (simp add: idempotence_key_def payments_list_def)
  have l: "length (sent (fst (snd (request ?con payments_list ''uuid'' failing_twice 0)))) = 2"
    by code_simp
  have r: "isRetryableError network_error" "\<not> error_envelope (response_data network_error)"
    by (simp_all add: network_error_def error_envelope_def response_data_def)
  have h2: "\<forall>j < length (sent (fst (snd (request ?con payments_list ''uuid'' failing_twice 0)))).
           \<exists>e s'. failing_twice (transport_state failing_twice
                       (request_config payments_list (idempotence_key payments_list ''uuid'')) j 0)
                     (request_config payments_list (idempotence_key payments_list ''uuid'')) =
                     (Rejected e, s') \<and>
                   isRetryableError e \<and> \<not> error_envelope (response_data e)"
  proof (intro allI impI)
    fix j
    assume "j < length (sent (fst (snd (request ?con payments_list ''uuid'' failing_twice 0))))"
    then have "j = 0 \<or> j = 1" using l by auto
    then show "\<exists>e s'. failing_twice (transport_state failing_twice
                       (request_config payments_list (idempotence_key payments_list ''uuid'')) j 0)
                     (request_config payments_list (idempotence_key payments_list ''uuid'')) =
                     (Rejected e, s') \<and>
                   isRetryableError e \<and> \<not> error_envelope (response_data e)"
      using r by (auto simp add: failing_twice_def simp del: isRetryableError.simps)
  qed
  obtain e s' where
    e: "failing_twice (transport_state failing_twice (request_config payments_list ''key-1'')
            1 0) (request_config payments_list ''key-1'') = (Rejected e, s')"
    and res: "fst (request ?con payments_list ''uuid'' failing_twice 0) =
              Inr (BadApiResponse (synthesized_error ''key-1'' e) ''key-1'')"
    and c: "errorData_code (BadApiResponse (synthesized_error ''key-1'' e) ''key-1'') =
              JStr (case response e of
                      None \<Rightarrow> or_else (code e) ''NETWORK_ERROR''
                    | Some r \<Rightarrow> ''HTTP_'' @ show_int (status r))"
    using retry_exhaustion_code[where transport=failing_twice and s=0 and this="?con"
            and n=1 and opts=payments_list and uuid="''uuid''", OF h1 h2]
    unfolding k by auto
  have "e = network_error" using e by (simp add: failing_twice_def)
  then show ?thesis using res c l by (simp add: network_error_def)
qed

section \<open>The synthesized payload\<close>

text \<open>
  The statement that every payload synthesized by the pipeline has the code
  \<^verbatim>\<open>HTTP_<status>\<close> when a response status is present does not hold for the payload of
  the block after the loop: with \<^verbatim>\<open>retries\<close> = 0.5 and a 503 page the code is the one of
  the rejection.
\<close>

theorem post_loop_code_counterexample:
  "response html_503 =
     Some \<lparr> status = 503, statusText = ''Service Unavailable'', data = JStr ''<html></html>'' \<rparr> \<and>
   \<not> error_envelope (response_data html_503) \<and>
   request \<lparr> debug = False, retries = 1 / 2 \<rparr> payments_list ''uuid''
      (always_rejecting html_503) () =
     (Inr (BadApiResponse
             (JObj [(''type'', JStr ''error''), (''id'', JStr ''key-1''),
                    (''code'', JStr ''ERR_BAD_RESPONSE''),
                    (''description'', JStr ''Request failed with status code 503'')])
             ''key-1''),
      [Sent payments_list_config, Delay 1000], ()) \<and>
   ''ERR_BAD_RESPONSE'' \<noteq> ''HTTP_'' @ show_int 503"
  by code_simp

text \<open>
  C10, as the code has it. When the loop returns a bad result from its body, the payload
  comes from the rejection of the last request of the call. Either the body of that
  rejection is an API envelope and the payload is this body, or the payload is synthesized:
  its \<^verbatim>\<open>id\<close> is the idempotency key of the call, and its \<^verbatim>\<open>code\<close> is
  \<^verbatim>\<open>HTTP_<status>\<close> when a response status is present, else the code of the rejection
  when that is present, else \<^verbatim>\<open>NETWORK_ERROR\<close>; presence is tested as the conditionals
  of the source test it, a status of 0 and an empty code counting as absent.
\<close>

theorem synthesized_payload:
  fixes transport :: "'s transport"
  assumes "fst (request_loop this opts (idempotence_key opts uuid) transport 0 None s) =
             Return (BadApiResponse errorData k)"
  shows "fst (request this opts uuid transport s) = Inr (BadApiResponse errorData k) \<and>
         k = idempotence_key opts uuid \<and>
         (\<exists>e s'.
            transport
              (transport_state transport (request_config opts (idempotence_key opts uuid))
                 (length (sent (fst (snd (request this opts uuid transport s)))) - 1) s)
              (request_config opts (idempotence_key opts uuid)) = (Rejected e, s') \<and>
            (error_envelope (response_data e) \<and> errorData = response_data e \<or>
             \<not> error_envelope (response_data e) \<and>
             errorData =
               JObj [(''type'', JStr ''error''),
                     (''id'', JStr (idempotence_key opts uuid)),
                     (''code'', JStr
                        (case response e of
                           None \<Rightarrow> or_else (code e) ''NETWORK_ERROR''
                         | Some r \<Rightarrow>
                             if status r \<noteq> 0 then ''HTTP_'' @ show_int (status r)
                             else or_else (code e) ''NETWORK_ERROR'')),
                     (''description'', JStr (synthesized_description e))]))"
proof -
  let ?k = "idempotence_key opts uuid"
  let ?c = "request_config opts ?k"
  let ?ev = "fst (snd (request_loop this opts ?k transport 0 None s))"
  have res: "fst (request this opts uuid transport s) = Inr (BadApiResponse errorData k)"
    using assms by (simp add: request_of_return)
  obtain e s' where k: "k = ?k"
    and t: "transport (transport_state transport ?c (length (sent ?ev) - 1) s) ?c = (Rejected e, s')"
    and err: "errorData = final_error ?k e"
    using loop_last_failure[of this opts ?k transport 0 None s errorData k, OF assms] by blast
  have "error_envelope (response_data e) \<and> errorData = response_data e \<or>
        \<not> error_envelope (response_data e) \<and>
        errorData =
          JObj [(''type'', JStr ''error''),
                (''id'', JStr ?k),
                (''code'', JStr
                   (case response e of
                      None \<Rightarrow> or_else (code e) ''NETWORK_ERROR''
                    | Some r \<Rightarrow>
                        if status r \<noteq> 0 then ''HTTP_'' @ show_int (status r)
                        else or_else (code e) ''NETWORK_ERROR'')),
                (''description'', JStr (synthesized_description e))]"
    using err by (simp add: final_error_def synthesized_error_def synthesized_code_def)
  with t res k show ?thesis by (simp only: request_events) blast
qed

text \<open>
  The client that answers 503 and then 404: the payload is synthesized from the 404 of the
  second request.
\<close>

theorem synthesized_payload_witness:
  "fst (request_loop \<lparr> debug = False, retries = 3 \<rparr> payments_list
          (idempotence_key payments_list ''uuid'') rejecting_503_then_404 0 None 0) =
     Return (BadApiResponse
               (JObj [(''type'', JStr ''error''), (''id'', JStr ''key-1''),
                      (''code'', JStr ''HTTP_404''),
                      (''description'', JStr ''HTTP 404: Not Found'')])
               ''key-1'') \<and>
   fst (request \<lparr> debug = False, retries = 3 \<rparr> payments_list ''uuid''
          rejecting_503_then_404 0) =
     Inr (BadApiResponse
            (JObj [(''type'', JStr ''error''), (''id'', JStr ''key-1''),
                   (''code'', JStr ''HTTP_404''),
                   (''description'', JStr ''HTTP 404: Not Found'')])
            ''key-1'') \<and>
   ''key-1'' = idempotence_key payments_list ''uuid'' \<and>
   (\<exists>e s'. rejecting_503_then_404
              (transport_state rejecting_503_then_404
                 (request_config payments_list (idempotence_key payments_list ''uuid''))
                 (length (sent (fst (snd (request \<lparr> debug = False, retries = 3 \<rparr> payments_list
                                            ''uuid'' rejecting_503_then_404 0)))) - 1) 0)
              (request_config payments_list (idempotence_key payments_list ''uuid'')) =
              (Rejected e, s'))"
proof -
  have h: "fst (request_loop \<lparr> debug = False, retries = 3 \<rparr> payments_list
          (idempotence_key payments_list ''uuid'') rejecting_503_then_404 0 None 0) =
     Return (BadApiResponse
               (JObj [(''type'', JStr ''error''), (''id'', JStr ''key-1''),
                      (''code'', JStr ''HTTP_404''),
                      (''description'', JStr ''HTTP 404: Not Found'')])
               ''key-1'')" by code_simp
  show ?thesis
    using synthesized_payload[OF h] h by blast
qed

end
